theory Spec2Isabelle
  imports Main "HOL-Library.Word"
begin

section \<open>BrowserTabTracker: a shallow embedding of \<^verbatim>\<open>src/browser-tab-tracker/index.ts\<close>\<close>

text \<open>
  The tracker gives every browser tab a session id and a tab number. It keeps its
  record under one key in two stores: the tab's own session storage and a session
  cookie that all tabs of the browser session share.

  Conventions of the model.
  \<^item> A JavaScript string is the list of its UTF-16 code units.
  \<^item> The \<^verbatim>\<open>tab\<close> field is a JavaScript number, an IEEE double, that the tracker only
    ever changes by adding or subtracting one. The model keeps the numbers that are
    integers, as an \<open>int\<close> (negative ones too, as in the source), and rounds every sum and
    difference to the nearest double, ties to even, as the double arithmetic does: from
    \<open>2 ^ 53\<close> on, adding one no longer gives the next integer.
  \<^item> A value read from a store is typed by the source as \<^verbatim>\<open>SessionInfo<T>\<close>; a store
    is a map from keys to such records, and \<open>None\<close> is the \<^verbatim>\<open>null\<close> the adapter
    returns for a missing or unparsable item.
  \<^item> The generator and the two callbacks are functions of the host application. The
    model records every call of them in a trace, with the arguments, and takes them to
    return normally and to leave the two stores alone.
  \<^item> A \<^verbatim>\<open>throw\<close> is the \<open>Inl\<close> of a sum; the state reached at the moment of the
    throw is returned beside it, since assignments made before a throw stay.
\<close>

subsection \<open>Data\<close>

type_synonym jsstring = "16 word list"

definition utf16 :: "string \<Rightarrow> jsstring" where
  "utf16 s = map (\<lambda>c. word_of_nat (of_char c)) s"

record 'a SessionInfo =
  id' :: 'a
  tab :: int

text \<open>
  The arithmetic of \<^verbatim>\<open>+\<close> and \<^verbatim>\<open>-\<close> on doubles that hold integers: the exact
  result, rounded to the nearest double, ties to the even significand. Below \<open>2 ^ 53\<close>
  in magnitude every integer is a double. From there on a double has 53 significant bits,
  so that a magnitude of \<open>b\<close> bits is rounded to a multiple of \<open>2 ^ (b - 53)\<close>. The
  numeral \<open>9007199254740992\<close> is \<open>2 ^ 53\<close>. (A finite double plus or minus one never
  rounds to an infinity.)
\<close>

fun bit_length :: "nat \<Rightarrow> nat" where
  "bit_length n = (if n = 0 then 0 else Suc (bit_length (n div 2)))"

declare bit_length.simps [simp del]

definition round_half_even :: "nat \<Rightarrow> nat \<Rightarrow> nat" where
  "round_half_even a e =
     (let q = a div 2 ^ e; r = a mod 2 ^ e
      in (if 2 * r < 2 ^ e then q
          else if 2 ^ e < 2 * r then q + 1
          else if even q then q else q + 1) * 2 ^ e)"

definition round_to_double :: "int \<Rightarrow> int" where
  "round_to_double n =
     (if \<bar>n\<bar> < 9007199254740992 then n
      else sgn n * int (round_half_even (nat \<bar>n\<bar>) (bit_length (nat \<bar>n\<bar>) - 53)))"

definition js_plus :: "int \<Rightarrow> int \<Rightarrow> int" where
  "js_plus x y = round_to_double (x + y)"

definition js_minus :: "int \<Rightarrow> int \<Rightarrow> int" where
  "js_minus x y = round_to_double (x - y)"

text \<open>
  Both errors of the source are plain \<^verbatim>\<open>Error\<close> objects told apart by their message:
  \<^verbatim>\<open>'Invalid storage key'\<close> and \<^verbatim>\<open>'Session ID generator not set'\<close>. \<open>TypeError\<close> is
  what the JavaScript runtime throws when a property of \<^verbatim>\<open>null\<close> is read or
  \<^verbatim>\<open>null\<close> is called.
\<close>

datatype error = InvalidStorageKey | SessionIdGeneratorNotSet | TypeError

datatype 'a event =
    SessionStorageGet jsstring
  | SessionStorageSet jsstring "'a SessionInfo"
  | SessionCookieGet jsstring
  | SessionCookieSet jsstring "'a SessionInfo"
  | SessionIdGeneratorCall
  | SessionStartedCallbackCall 'a int
  | NewTabOpenedCallbackCall int
  | OnBeforeUnloadSet

text \<open>
  The world outside the tracker: the two stores, whether the tracker's handler sits in
  \<^verbatim>\<open>window.onbeforeunload\<close>, and the trace of everything the tracker did to the
  world, oldest event first.
\<close>

record 'a world =
  sessionStorage :: "jsstring \<rightharpoonup> 'a SessionInfo"
  cookies :: "jsstring \<rightharpoonup> 'a SessionInfo"
  onbeforeunload :: bool
  trace :: "'a event list"

record 'a tracker =
  storageKeyName :: jsstring
  sessionInfo :: "'a SessionInfo option"
  sessionIdGenerator :: "(unit \<Rightarrow> 'a) option"
  sessionStartedCallback :: "('a \<Rightarrow> int \<Rightarrow> unit) option"
  newTabOpenedCallback :: "(int \<Rightarrow> unit) option"
  newSessionCreated :: bool

record 'a options =
  opt_sessionIdGenerator :: "(unit \<Rightarrow> 'a) option"
  opt_sessionStartedCallback :: "('a \<Rightarrow> int \<Rightarrow> unit) option"
  opt_newTabOpenedCallback :: "(int \<Rightarrow> unit) option"
  opt_storageKey :: "jsstring option"

definition DEFAULT_STORAGE_KEY :: jsstring where
  "DEFAULT_STORAGE_KEY = utf16 ''browser-session-info''"

text \<open>The field initialisers of the class: the tracker as the constructor leaves it.\<close>

definition new_tracker :: "'a tracker" where
  "new_tracker =
     \<lparr>storageKeyName = DEFAULT_STORAGE_KEY, sessionInfo = None, sessionIdGenerator = None,
      sessionStartedCallback = None, newTabOpenedCallback = None, newSessionCreated = False\<rparr>"

definition log :: "'a event \<Rightarrow> 'a world \<Rightarrow> 'a world" where
  "log e w = w\<lparr>trace := trace w @ [e]\<rparr>"

subsection \<open>The persistence adapter\<close>

text \<open>
  Modelled from the spec: the class \<^verbatim>\<open>StorageService\<close> of \<^verbatim>\<open>src/storage-service\<close>,
  of which only the test suite is at hand. Reading the per-tab store gives the stored
  value, or \<^verbatim>\<open>null\<close> when the item is missing or is not valid JSON.
\<close>

definition sessionStorageGet :: "jsstring \<Rightarrow> 'a world \<Rightarrow> 'a SessionInfo option \<times> 'a world" where
  "sessionStorageGet key w = (sessionStorage w key, log (SessionStorageGet key) w)"

text \<open>
  Modelled from the spec: \<^verbatim>\<open>StorageService.sessionStorageSet\<close>; the value is stored
  (serialised, so the store holds a copy) under the key in the per-tab store.
\<close>

definition sessionStorageSet :: "jsstring \<Rightarrow> 'a SessionInfo \<Rightarrow> 'a world \<Rightarrow> 'a world" where
  "sessionStorageSet key v w =
     log (SessionStorageSet key v) (w\<lparr>sessionStorage := (sessionStorage w)(key \<mapsto> v)\<rparr>)"

text \<open>
  Modelled from the spec: \<^verbatim>\<open>StorageService.sessionCookieGet\<close>; the cross-tab
  counterpart of \<open>sessionStorageGet\<close>.
\<close>

definition sessionCookieGet :: "jsstring \<Rightarrow> 'a world \<Rightarrow> 'a SessionInfo option \<times> 'a world" where
  "sessionCookieGet key w = (cookies w key, log (SessionCookieGet key) w)"

text \<open>
  Modelled from the spec: \<^verbatim>\<open>StorageService.sessionCookieSet\<close>; the cross-tab
  counterpart of \<open>sessionStorageSet\<close>.
\<close>

definition sessionCookieSet :: "jsstring \<Rightarrow> 'a SessionInfo \<Rightarrow> 'a world \<Rightarrow> 'a world" where
  "sessionCookieSet key v w =
     log (SessionCookieSet key v) (w\<lparr>cookies := (cookies w)(key \<mapsto> v)\<rparr>)"

subsection \<open>The tracker\<close>

text \<open>
  The class \<^verbatim>\<open>\s\<close> of a regular expression without the \<^verbatim>\<open>u\<close> flag: the white space
  and line terminator code units of ECMAScript.
\<close>

definition js_whitespace :: "16 word \<Rightarrow> bool" where
  "js_whitespace c \<longleftrightarrow>
     c \<in> set [0x0009, 0x000A, 0x000B, 0x000C, 0x000D, 0x0020, 0x00A0, 0x1680,
              0x2028, 0x2029, 0x202F, 0x205F, 0x3000, 0xFEFF]
     \<or> (0x2000 \<le> c \<and> c \<le> 0x200A)"

text \<open>\<^verbatim>\<open>REGEX_EMPTY_STRING.test(key)\<close>, the expression being \<^verbatim>\<open>/^\s*$/\<close>.\<close>

definition REGEX_EMPTY_STRING :: "jsstring \<Rightarrow> bool" where
  "REGEX_EMPTY_STRING key = list_all js_whitespace key"

text \<open>The getters \<^verbatim>\<open>tabId\<close>, \<^verbatim>\<open>sessionId\<close> and \<^verbatim>\<open>storageKey\<close>.\<close>

definition tabId :: "'a tracker \<Rightarrow> error + int" where
  "tabId t = (case sessionInfo t of None \<Rightarrow> Inl TypeError | Some si \<Rightarrow> Inr (tab si))"

definition sessionId :: "'a tracker \<Rightarrow> error + 'a" where
  "sessionId t = (case sessionInfo t of None \<Rightarrow> Inl TypeError | Some si \<Rightarrow> Inr (id' si))"

definition storageKey :: "'a tracker \<Rightarrow> jsstring" where
  "storageKey t = storageKeyName t"

definition validateKey :: "jsstring \<Rightarrow> error + unit" where
  "validateKey key =
     (if key = [] \<or> REGEX_EMPTY_STRING key then Inl InvalidStorageKey else Inr ())"

definition validateSessionIdGenerator :: "(unit \<Rightarrow> 'a) option \<Rightarrow> error + unit" where
  "validateSessionIdGenerator generator =
     (case generator of None \<Rightarrow> Inl SessionIdGeneratorNotSet | Some _ \<Rightarrow> Inr ())"

definition startNewSession ::
  "'a tracker \<Rightarrow> 'a world \<Rightarrow> (error + 'a SessionInfo) \<times> 'a tracker \<times> 'a world" where
  "startNewSession t w =
     (let t1 = t\<lparr>newSessionCreated := True\<rparr>
      in case sessionIdGenerator t1 of
           None \<Rightarrow> (Inl TypeError, t1, w)
         | Some g \<Rightarrow> (Inr \<lparr>id' = g (), tab = 0\<rparr>, t1, log SessionIdGeneratorCall w))"

definition generateNewTabId ::
  "'a tracker \<Rightarrow> 'a world \<Rightarrow> (error + 'a SessionInfo) \<times> 'a tracker \<times> 'a world" where
  "generateNewTabId t w =
     (let (found, w1) = sessionCookieGet (storageKeyName t) w
      in case (case found of
                 None \<Rightarrow> startNewSession t w1
               | Some si \<Rightarrow> (Inr si, t, w1)) of
           (Inl e, t2, w2) \<Rightarrow> (Inl e, t2, w2)
         | (Inr si, t2, w2) \<Rightarrow>
             (let si1 = si\<lparr>tab := js_plus (tab si) 1\<rparr>;
                  w3 = (case newTabOpenedCallback t2 of
                          None \<Rightarrow> w2
                        | Some _ \<Rightarrow> log (NewTabOpenedCallbackCall (tab si1)) w2);
                  w4 = sessionCookieSet (storageKeyName t2) si1 w3;
                  w5 = sessionStorageSet (storageKeyName t2) si1 w4
              in (Inr si1, t2, w5)))"

definition generateSessionInfo ::
  "'a tracker \<Rightarrow> 'a world \<Rightarrow> (error + 'a SessionInfo) \<times> 'a tracker \<times> 'a world" where
  "generateSessionInfo t w =
     (let (found, w1) = sessionStorageGet (storageKeyName t) w
      in case found of
           None \<Rightarrow> generateNewTabId t w1
         | Some si \<Rightarrow> (Inr si, t, w1))"

text \<open>
  The function assigned to \<^verbatim>\<open>window.onbeforeunload\<close>. It reads the tracker's key when
  it runs, and reading \<^verbatim>\<open>.tab\<close> of a \<^verbatim>\<open>null\<close> record throws.
\<close>

definition onbeforeunload_handler :: "'a tracker \<Rightarrow> 'a world \<Rightarrow> (error + unit) \<times> 'a world" where
  "onbeforeunload_handler t w =
     (let (found, w1) = sessionStorageGet (storageKeyName t) w
      in case found of
           None \<Rightarrow> (Inl TypeError, w1)
         | Some si \<Rightarrow>
             (let si1 = si\<lparr>tab := js_minus (tab si) 1\<rparr>;
                  w2 = sessionCookieSet (storageKeyName t) si1 w1;
                  w3 = sessionStorageSet (storageKeyName t) si1 w2
              in (Inr (), w3)))"

definition listenOnTabCloseEvent :: "'a world \<Rightarrow> 'a world" where
  "listenOnTabCloseEvent w = log OnBeforeUnloadSet (w\<lparr>onbeforeunload := True\<rparr>)"

text \<open>The host fires the unload event: the handler runs if one is set.\<close>

definition unload :: "'a tracker \<Rightarrow> 'a world \<Rightarrow> (error + unit) \<times> 'a world" where
  "unload t w = (if onbeforeunload w then onbeforeunload_handler t w else (Inr (), w))"

text \<open>
  Lines 75 to 78 of \<^verbatim>\<open>initialize\<close>: the override is looked at only when it is truthy,
  and the empty string is falsy, as \<^verbatim>\<open>undefined\<close> is.
\<close>

definition set_storageKey :: "jsstring option \<Rightarrow> 'a tracker \<Rightarrow> (error + unit) \<times> 'a tracker" where
  "set_storageKey key t =
     (case key of
        None \<Rightarrow> (Inr (), t)
      | Some k \<Rightarrow>
          if k \<noteq> [] then
            (case validateKey k of
               Inl e \<Rightarrow> (Inl e, t)
             | Inr _ \<Rightarrow> (Inr (), t\<lparr>storageKeyName := k\<rparr>))
          else (Inr (), t))"

text \<open>Lines 84 to 86 of \<^verbatim>\<open>initialize\<close>.\<close>

definition trigger_sessionStarted :: "'a tracker \<Rightarrow> 'a world \<Rightarrow> (error + unit) \<times> 'a world" where
  "trigger_sessionStarted t w =
     (if newSessionCreated t then
        (case sessionStartedCallback t of
           None \<Rightarrow> (Inr (), w)
         | Some _ \<Rightarrow>
            (case sessionId t of
               Inl e \<Rightarrow> (Inl e, w)
             | Inr s \<Rightarrow>
                (case tabId t of
                   Inl e \<Rightarrow> (Inl e, w)
                 | Inr n \<Rightarrow> (Inr (), log (SessionStartedCallbackCall s n) w))))
      else (Inr (), w))"

definition initialize ::
  "'a options \<Rightarrow> 'a tracker \<Rightarrow> 'a world \<Rightarrow> (error + unit) \<times> 'a tracker \<times> 'a world" where
  "initialize opts t w =
     (case sessionInfo t of
        Some _ \<Rightarrow> (Inr (), t, listenOnTabCloseEvent w)
      | None \<Rightarrow>
         (case validateSessionIdGenerator (opt_sessionIdGenerator opts) of
            Inl e \<Rightarrow> (Inl e, t, w)
          | Inr _ \<Rightarrow>
             (let t1 = t\<lparr>sessionIdGenerator := opt_sessionIdGenerator opts,
                         sessionStartedCallback := opt_sessionStartedCallback opts,
                         newTabOpenedCallback := opt_newTabOpenedCallback opts\<rparr>
              in case set_storageKey (opt_storageKey opts) t1 of
                   (Inl e, t2) \<Rightarrow> (Inl e, t2, w)
                 | (Inr _, t2) \<Rightarrow>
                    (case generateSessionInfo t2 w of
                       (Inl e, t3, w3) \<Rightarrow> (Inl e, t3, w3)
                     | (Inr si, t3, w3) \<Rightarrow>
                        (let t4 = t3\<lparr>sessionInfo := Some si\<rparr>
                         in case trigger_sessionStarted t4 w3 of
                              (Inl e, w4) \<Rightarrow> (Inl e, t4, w4)
                            | (Inr _, w4) \<Rightarrow> (Inr (), t4, listenOnTabCloseEvent w4))))))"

subsection \<open>Reading the trace\<close>

text \<open>What was appended to the trace between two worlds.\<close>

definition new_events :: "'a world \<Rightarrow> 'a world \<Rightarrow> 'a event list" where
  "new_events w w' = drop (length (trace w)) (trace w')"

fun generator_calls :: "'a event list \<Rightarrow> nat" where
  "generator_calls [] = 0"
| "generator_calls (SessionIdGeneratorCall # es) = Suc (generator_calls es)"
| "generator_calls (_ # es) = generator_calls es"

fun sessionStarted_calls :: "'a event list \<Rightarrow> ('a \<times> int) list" where
  "sessionStarted_calls [] = []"
| "sessionStarted_calls (SessionStartedCallbackCall s n # es) = (s, n) # sessionStarted_calls es"
| "sessionStarted_calls (_ # es) = sessionStarted_calls es"

fun newTabOpened_calls :: "'a event list \<Rightarrow> int list" where
  "newTabOpened_calls [] = []"
| "newTabOpened_calls (NewTabOpenedCallbackCall n # es) = n # newTabOpened_calls es"
| "newTabOpened_calls (_ # es) = newTabOpened_calls es"

fun is_store_access :: "'a event \<Rightarrow> bool" where
  "is_store_access (SessionStorageGet _) = True"
| "is_store_access (SessionStorageSet _ _) = True"
| "is_store_access (SessionCookieGet _) = True"
| "is_store_access (SessionCookieSet _ _) = True"
| "is_store_access _ = False"

definition store_accesses :: "'a event list \<Rightarrow> 'a event list" where
  "store_accesses es = filter is_store_access es"

fun is_store_write :: "'a event \<Rightarrow> bool" where
  "is_store_write (SessionStorageSet _ _) = True"
| "is_store_write (SessionCookieSet _ _) = True"
| "is_store_write _ = False"

definition store_writes :: "'a event list \<Rightarrow> 'a event list" where
  "store_writes es = filter is_store_write es"

subsection \<open>Concrete runs\<close>

text \<open>
  A host configuration with a generator that mints the id 7 and with both callbacks,
  and the worlds the scenarios below start from: no record anywhere (the first tab ever),
  and a cookie left by the first tab of a session (a second tab opens).
\<close>

definition example_options :: "nat options" where
  "example_options =
     \<lparr>opt_sessionIdGenerator = Some (\<lambda>_. 7), opt_sessionStartedCallback = Some (\<lambda>_ _. ()),
      opt_newTabOpenedCallback = Some (\<lambda>_. ()), opt_storageKey = None\<rparr>"

definition empty_world :: "nat world" where
  "empty_world = \<lparr>sessionStorage = Map.empty, cookies = Map.empty, onbeforeunload = False, trace = []\<rparr>"

definition second_tab_world :: "nat world" where
  "second_tab_world =
     \<lparr>sessionStorage = Map.empty, cookies = [DEFAULT_STORAGE_KEY \<mapsto> \<lparr>id' = 7, tab = 1\<rparr>],
      onbeforeunload = False, trace = []\<rparr>"

text \<open>The second tab after its \<^verbatim>\<open>initialize\<close>: tracker and world.\<close>

definition second_tab :: "nat tracker" where
  "second_tab = fst (snd (initialize example_options new_tracker second_tab_world))"

definition second_tab_resolved :: "nat world" where
  "second_tab_resolved = snd (snd (initialize example_options new_tracker second_tab_world))"

text \<open>Later a third tab has joined and has written its count to the cookie.\<close>

definition third_tab_joined :: "nat world" where
  "third_tab_joined =
     second_tab_resolved\<lparr>cookies := (cookies second_tab_resolved)(DEFAULT_STORAGE_KEY \<mapsto> \<lparr>id' = 7, tab = 3\<rparr>)\<rparr>"


text \<open>Options that also ask for another key.\<close>

definition other_key_options :: "nat options" where
  "other_key_options = example_options\<lparr>opt_storageKey := Some (utf16 ''other-key'')\<rparr>"

text \<open>Options with an override of a space and a tab, and with an empty override.\<close>

definition blank_key_options :: "nat options" where
  "blank_key_options = example_options\<lparr>opt_storageKey := Some [0x0020, 0x0009]\<rparr>"

definition empty_key_options :: "nat options" where
  "empty_key_options = example_options\<lparr>opt_storageKey := Some []\<rparr>"

text \<open>A reloaded tab: its session storage still holds the record of the second tab.\<close>

definition reload_world :: "nat world" where
  "reload_world =
     \<lparr>sessionStorage = [DEFAULT_STORAGE_KEY \<mapsto> \<lparr>id' = 7, tab = 2\<rparr>],
      cookies = [DEFAULT_STORAGE_KEY \<mapsto> \<lparr>id' = 7, tab = 2\<rparr>],
      onbeforeunload = False, trace = []\<rparr>"

subsection \<open>The arithmetic of the tab number\<close>

lemma js_plus_exact: "\<bar>x + y\<bar> < 9007199254740992 \<Longrightarrow> js_plus x y = x + y"
  by (simp add: js_plus_def round_to_double_def)

lemma js_minus_exact: "\<bar>x - y\<bar> < 9007199254740992 \<Longrightarrow> js_minus x y = x - y"
  by (simp add: js_minus_def round_to_double_def)

lemma js_plus_0_1 [simp]: "js_plus 0 1 = 1"
  by (simp add: js_plus_exact)

lemma js_plus_1_1 [simp]: "js_plus 1 1 = 2"
  by (simp add: js_plus_exact)

lemma js_minus_2_1 [simp]: "js_minus 2 1 = 1"
  by (simp add: js_minus_exact)

text \<open>At \<open>2 ^ 53\<close> the count no longer moves up, and at \<open>- 2 ^ 53\<close> no longer down.\<close>

lemma bit_length_2_53: "bit_length 9007199254740993 = 54"
  by (simp add: bit_length.simps)

lemma js_plus_stays: "js_plus 9007199254740992 1 = 9007199254740992"
  by (simp add: js_plus_def round_to_double_def round_half_even_def bit_length_2_53 Let_def)

lemma js_minus_stays: "js_minus (- 9007199254740992) 1 = - 9007199254740992"
  by (simp add: js_minus_def round_to_double_def round_half_even_def bit_length_2_53 Let_def)

subsection \<open>What the three paths of the resolution compute\<close>

lemma set_storageKey_frame:
  assumes "set_storageKey key t = (r, t2)"
  shows "sessionInfo t2 = sessionInfo t \<and> sessionIdGenerator t2 = sessionIdGenerator t \<and>
         sessionStartedCallback t2 = sessionStartedCallback t \<and>
         newTabOpenedCallback t2 = newTabOpenedCallback t \<and>
         newSessionCreated t2 = newSessionCreated t"
  using assms by (auto simp: set_storageKey_def split: option.splits if_splits sum.splits)

lemma generateSessionInfo_reload:
  assumes "sessionStorage w (storageKeyName t) = Some si"
  shows "generateSessionInfo t w = (Inr si, t, log (SessionStorageGet (storageKeyName t)) w)"
  using assms by (simp add: generateSessionInfo_def sessionStorageGet_def)

lemma generateSessionInfo_join:
  assumes "sessionStorage w (storageKeyName t) = None"
    and "cookies w (storageKeyName t) = Some si"
  shows "generateSessionInfo t w =
     (Inr (si\<lparr>tab := js_plus (tab si) 1\<rparr>), t,
      w\<lparr>sessionStorage := (sessionStorage w)(storageKeyName t \<mapsto> si\<lparr>tab := js_plus (tab si) 1\<rparr>),
        cookies := (cookies w)(storageKeyName t \<mapsto> si\<lparr>tab := js_plus (tab si) 1\<rparr>),
        trace := trace w @
          [SessionStorageGet (storageKeyName t), SessionCookieGet (storageKeyName t)] @
          (case newTabOpenedCallback t of None \<Rightarrow> []
           | Some _ \<Rightarrow> [NewTabOpenedCallbackCall (js_plus (tab si) 1)]) @
          [SessionCookieSet (storageKeyName t) (si\<lparr>tab := js_plus (tab si) 1\<rparr>),
           SessionStorageSet (storageKeyName t) (si\<lparr>tab := js_plus (tab si) 1\<rparr>)]\<rparr>)"
  using assms
  by (simp add: generateSessionInfo_def generateNewTabId_def sessionStorageGet_def
      sessionCookieGet_def sessionCookieSet_def sessionStorageSet_def log_def Let_def
      split: option.splits)

lemma generateSessionInfo_mint:
  assumes "sessionStorage w (storageKeyName t) = None"
    and "cookies w (storageKeyName t) = None"
    and "sessionIdGenerator t = Some g"
  shows "generateSessionInfo t w =
     (Inr \<lparr>id' = g (), tab = 1\<rparr>, t\<lparr>newSessionCreated := True\<rparr>,
      w\<lparr>sessionStorage := (sessionStorage w)(storageKeyName t \<mapsto> \<lparr>id' = g (), tab = 1\<rparr>),
        cookies := (cookies w)(storageKeyName t \<mapsto> \<lparr>id' = g (), tab = 1\<rparr>),
        trace := trace w @
          [SessionStorageGet (storageKeyName t), SessionCookieGet (storageKeyName t),
           SessionIdGeneratorCall] @
          (case newTabOpenedCallback t of None \<Rightarrow> []
           | Some _ \<Rightarrow> [NewTabOpenedCallbackCall 1]) @
          [SessionCookieSet (storageKeyName t) \<lparr>id' = g (), tab = 1\<rparr>,
           SessionStorageSet (storageKeyName t) \<lparr>id' = g (), tab = 1\<rparr>]\<rparr>)"
  using assms
  by (simp add: generateSessionInfo_def generateNewTabId_def startNewSession_def
      sessionStorageGet_def sessionCookieGet_def sessionCookieSet_def sessionStorageSet_def
      log_def Let_def split: option.splits)

lemma initialize_resolved:
  assumes "sessionInfo t = Some si"
  shows "initialize opts t w = (Inr (), t, listenOnTabCloseEvent w)"
  using assms by (simp add: initialize_def)

lemma generator_calls_append:
  "generator_calls (xs @ ys) = generator_calls xs + generator_calls ys"
  by (induction xs rule: generator_calls.induct) simp_all

lemma trigger_sessionStarted_resolved:
  assumes "sessionInfo t = Some si"
  shows "trigger_sessionStarted t w =
     (Inr (), if newSessionCreated t \<and> sessionStartedCallback t \<noteq> None
              then log (SessionStartedCallbackCall (id' si) (tab si)) w else w)"
  using assms
  by (auto simp: trigger_sessionStarted_def sessionId_def tabId_def split: option.splits)

lemma generateSessionInfo_key:
  assumes "generateSessionInfo t w = (r, t3, w3)"
  shows "storageKeyName t3 = storageKeyName t"
  using assms
  by (auto simp: generateSessionInfo_def generateNewTabId_def startNewSession_def
      sessionStorageGet_def sessionCookieGet_def Let_def
      split: option.splits sum.splits prod.splits)

lemma generateSessionInfo_unset_generator:
  assumes "sessionStorage w (storageKeyName t) = None"
    and "cookies w (storageKeyName t) = None"
    and "sessionIdGenerator t = None"
  shows "generateSessionInfo t w =
     (Inl TypeError, t\<lparr>newSessionCreated := True\<rparr>,
      w\<lparr>trace := trace w @
          [SessionStorageGet (storageKeyName t), SessionCookieGet (storageKeyName t)]\<rparr>)"
  using assms
  by (simp add: generateSessionInfo_def generateNewTabId_def startNewSession_def
      sessionStorageGet_def sessionCookieGet_def log_def Let_def)

text \<open>Initialize on an unresolved tracker that is given a generator.\<close>

lemma initialize_unresolved:
  assumes "sessionInfo t = None" and "opt_sessionIdGenerator opts = Some g"
    and "t1 = t\<lparr>sessionIdGenerator := opt_sessionIdGenerator opts,
          sessionStartedCallback := opt_sessionStartedCallback opts,
          newTabOpenedCallback := opt_newTabOpenedCallback opts\<rparr>"
  shows "initialize opts t w =
     (case set_storageKey (opt_storageKey opts) t1 of
        (Inl e, t2) \<Rightarrow> (Inl e, t2, w)
      | (Inr _, t2) \<Rightarrow>
         (case generateSessionInfo t2 w of
            (Inl e, t3, w3) \<Rightarrow> (Inl e, t3, w3)
          | (Inr si, t3, w3) \<Rightarrow>
             (Inr (), t3\<lparr>sessionInfo := Some si\<rparr>,
              listenOnTabCloseEvent
                (snd (trigger_sessionStarted (t3\<lparr>sessionInfo := Some si\<rparr>) w3)))))"
  using assms(1,2) unfolding assms(3)
  by (simp add: initialize_def validateSessionIdGenerator_def Let_def
      trigger_sessionStarted_resolved split: prod.splits sum.splits)

text \<open>Every run of initialize on an unresolved tracker, whatever its outcome.\<close>

lemma initialize_unresolved_cases:
  assumes "sessionInfo t = None" and "initialize opts t w = (r, t', w')"
  shows "(w' = w \<and> r \<noteq> Inr () \<and> storageKeyName t' = storageKeyName t) \<or>
     (\<exists>t2 rr t3 w3. sessionInfo t2 = None \<and> newSessionCreated t2 = newSessionCreated t \<and>
        sessionIdGenerator t2 = opt_sessionIdGenerator opts \<and>
        newTabOpenedCallback t2 = opt_newTabOpenedCallback opts \<and>
        sessionStartedCallback t2 = opt_sessionStartedCallback opts \<and>
        opt_sessionIdGenerator opts \<noteq> None \<and>
        generateSessionInfo t2 w = (rr, t3, w3) \<and> storageKeyName t' = storageKeyName t2 \<and>
        (case rr of Inl e \<Rightarrow> r = Inl e \<and> w' = w3
         | Inr si \<Rightarrow> r = Inr () \<and> t' = t3\<lparr>sessionInfo := Some si\<rparr> \<and>
             w' = listenOnTabCloseEvent
                   (snd (trigger_sessionStarted (t3\<lparr>sessionInfo := Some si\<rparr>) w3))))"
proof (cases "opt_sessionIdGenerator opts")
  case None
  with assms show ?thesis
    by (auto simp: initialize_def validateSessionIdGenerator_def)
next
  case (Some g)
  define t1 where "t1 = t\<lparr>sessionIdGenerator := opt_sessionIdGenerator opts,
          sessionStartedCallback := opt_sessionStartedCallback opts,
          newTabOpenedCallback := opt_newTabOpenedCallback opts\<rparr>"
  note init = initialize_unresolved [OF assms(1) Some t1_def, of w]
  obtain rk t2 where k: "set_storageKey (opt_storageKey opts) t1 = (rk, t2)"
    by (cases "set_storageKey (opt_storageKey opts) t1")
  have fr: "sessionInfo t2 = None" "newSessionCreated t2 = newSessionCreated t"
    "sessionIdGenerator t2 = opt_sessionIdGenerator opts"
    "newTabOpenedCallback t2 = opt_newTabOpenedCallback opts"
    "sessionStartedCallback t2 = opt_sessionStartedCallback opts"
    using set_storageKey_frame [OF k] assms(1) by (simp_all add: t1_def)
  show ?thesis
  proof (cases rk)
    case (Inl e)
    then have "t2 = t1" using k
      by (auto simp: set_storageKey_def split: option.splits if_splits sum.splits)
    moreover have "storageKeyName t1 = storageKeyName t" by (simp add: t1_def)
    ultimately show ?thesis using Inl k assms(2) init by auto
  next
    case (Inr u)
    obtain rr t3 w3 where g: "generateSessionInfo t2 w = (rr, t3, w3)"
      by (cases "generateSessionInfo t2 w")
    have key: "storageKeyName t3 = storageKeyName t2"
      using generateSessionInfo_key [OF g] .
    have "\<exists>t2 rr t3 w3. sessionInfo t2 = None \<and> newSessionCreated t2 = newSessionCreated t \<and>
        sessionIdGenerator t2 = opt_sessionIdGenerator opts \<and>
        newTabOpenedCallback t2 = opt_newTabOpenedCallback opts \<and>
        sessionStartedCallback t2 = opt_sessionStartedCallback opts \<and>
        opt_sessionIdGenerator opts \<noteq> None \<and>
        generateSessionInfo t2 w = (rr, t3, w3) \<and> storageKeyName t' = storageKeyName t2 \<and>
        (case rr of Inl e \<Rightarrow> r = Inl e \<and> w' = w3
         | Inr si \<Rightarrow> r = Inr () \<and> t' = t3\<lparr>sessionInfo := Some si\<rparr> \<and>
             w' = listenOnTabCloseEvent
                   (snd (trigger_sessionStarted (t3\<lparr>sessionInfo := Some si\<rparr>) w3)))"
    proof (intro exI conjI)
      show "generateSessionInfo t2 w = (rr, t3, w3)" by (rule g)
      show "storageKeyName t' = storageKeyName t2"
        using Inr k g assms(2) init key by (cases rr) auto
      show "case rr of Inl e \<Rightarrow> r = Inl e \<and> w' = w3
         | Inr si \<Rightarrow> r = Inr () \<and> t' = t3\<lparr>sessionInfo := Some si\<rparr> \<and>
             w' = listenOnTabCloseEvent
                   (snd (trigger_sessionStarted (t3\<lparr>sessionInfo := Some si\<rparr>) w3))"
        using Inr k g assms(2) init by (cases rr) auto
    qed (simp_all add: fr Some)
    then show ?thesis by (rule disjI2)
  qed
qed

lemma generateSessionInfo_effect:
  assumes "generateSessionInfo t w = (rr, t3, w3)"
  shows "\<exists>es. trace w3 = trace w @ es \<and>
      generator_calls es =
        (if sessionStorage w (storageKeyName t) = None \<and> cookies w (storageKeyName t) = None \<and>
            sessionIdGenerator t \<noteq> None then 1 else 0) \<and>
      (sessionStorage w (storageKeyName t) \<noteq> None \<longrightarrow>
         store_writes es = [] \<and> sessionStorage w3 = sessionStorage w \<and> cookies w3 = cookies w)"
proof (cases "sessionStorage w (storageKeyName t)")
  case (Some si)
  from generateSessionInfo_reload [OF Some] assms Some show ?thesis
    by (auto simp: log_def store_writes_def)
next
  case None
  show ?thesis
  proof (cases "cookies w (storageKeyName t)")
    case (Some si)
    from generateSessionInfo_join [OF None Some] assms None Some show ?thesis
      by (auto simp: generator_calls_append split: option.splits)
  next
    case no_cookie: None
    show ?thesis
    proof (cases "sessionIdGenerator t")
      case None
      from generateSessionInfo_unset_generator [OF \<open>sessionStorage w (storageKeyName t) = None\<close> no_cookie None]
        assms \<open>sessionStorage w (storageKeyName t) = None\<close> no_cookie None
      show ?thesis by auto
    next
      case (Some g)
      from generateSessionInfo_mint [OF None no_cookie Some] assms None no_cookie Some
      show ?thesis by (auto simp: generator_calls_append split: option.splits)
    qed
  qed
qed

lemma resolution_tail:
  assumes "sessionInfo t4 = Some si"
    and "w' = listenOnTabCloseEvent (snd (trigger_sessionStarted t4 w3))"
  shows "\<exists>es. trace w' = trace w3 @ es \<and> generator_calls es = 0 \<and> store_writes es = [] \<and>
      newTabOpened_calls es = [] \<and>
      sessionStarted_calls es =
        (if newSessionCreated t4 \<and> sessionStartedCallback t4 \<noteq> None
         then [(id' si, tab si)] else [])"
    and "sessionStorage w' = sessionStorage w3" and "cookies w' = cookies w3"
  using assms
  by (auto simp: trigger_sessionStarted_resolved listenOnTabCloseEvent_def log_def
      store_writes_def)

lemma initialize_normal_return:
  assumes "sessionInfo t = None" and "initialize opts t w = (Inr (), t', w')"
  obtains t2 si t3 w3 where
    "newSessionCreated t2 = newSessionCreated t"
    "sessionIdGenerator t2 = opt_sessionIdGenerator opts"
    "newTabOpenedCallback t2 = opt_newTabOpenedCallback opts"
    "sessionStartedCallback t2 = opt_sessionStartedCallback opts"
    "opt_sessionIdGenerator opts \<noteq> None"
    "storageKeyName t2 = storageKey t'"
    "generateSessionInfo t2 w = (Inr si, t3, w3)"
    "t' = t3\<lparr>sessionInfo := Some si\<rparr>"
    "w' = listenOnTabCloseEvent (snd (trigger_sessionStarted t' w3))"
proof -
  from initialize_unresolved_cases [OF assms]
  obtain t2 rr t3 w3 where *:
    "newSessionCreated t2 = newSessionCreated t"
    "sessionIdGenerator t2 = opt_sessionIdGenerator opts"
    "newTabOpenedCallback t2 = opt_newTabOpenedCallback opts"
    "sessionStartedCallback t2 = opt_sessionStartedCallback opts"
    "opt_sessionIdGenerator opts \<noteq> None"
    "generateSessionInfo t2 w = (rr, t3, w3)" "storageKeyName t' = storageKeyName t2"
    and c: "case rr of Inl e \<Rightarrow> Inr () = Inl e \<and> w' = w3
         | Inr si \<Rightarrow> Inr () = (Inr () :: error + unit) \<and> t' = t3\<lparr>sessionInfo := Some si\<rparr> \<and>
             w' = listenOnTabCloseEvent
                   (snd (trigger_sessionStarted (t3\<lparr>sessionInfo := Some si\<rparr>) w3))"
    by auto
  from c obtain si where "rr = Inr si" "t' = t3\<lparr>sessionInfo := Some si\<rparr>"
    "w' = listenOnTabCloseEvent (snd (trigger_sessionStarted t' w3))"
    by (cases rr) auto
  with * that show thesis by (simp add: storageKey_def)
qed

text \<open>
  What the unload handler does when the per-tab store holds a record: it never reads the
  cross-tab store.
\<close>

lemma onbeforeunload_handler_effect:
  assumes "sessionStorage w (storageKeyName t) = Some si"
  shows "fst (onbeforeunload_handler t w) = Inr () \<and>
     cookies (snd (onbeforeunload_handler t w)) =
       (cookies w)(storageKeyName t \<mapsto> si\<lparr>tab := js_minus (tab si) 1\<rparr>) \<and>
     sessionStorage (snd (onbeforeunload_handler t w)) =
       (sessionStorage w)(storageKeyName t \<mapsto> si\<lparr>tab := js_minus (tab si) 1\<rparr>) \<and>
     new_events w (snd (onbeforeunload_handler t w)) =
       [SessionStorageGet (storageKeyName t),
        SessionCookieSet (storageKeyName t) (si\<lparr>tab := js_minus (tab si) 1\<rparr>),
        SessionStorageSet (storageKeyName t) (si\<lparr>tab := js_minus (tab si) 1\<rparr>)]"
  using assms
  by (simp add: onbeforeunload_handler_def sessionStorageGet_def sessionCookieSet_def
      sessionStorageSet_def log_def new_events_def Let_def)

subsection \<open>The concrete runs, evaluated\<close>

lemmas tracker_defs =
  initialize_def set_storageKey_def validateKey_def validateSessionIdGenerator_def
  generateSessionInfo_def generateNewTabId_def startNewSession_def trigger_sessionStarted_def
  listenOnTabCloseEvent_def sessionStorageGet_def sessionStorageSet_def sessionCookieGet_def
  sessionCookieSet_def log_def tabId_def sessionId_def storageKey_def
  unload_def onbeforeunload_handler_def new_tracker_def

lemma first_tab_run:
  "initialize example_options new_tracker empty_world =
     (Inr (),
      \<lparr>storageKeyName = DEFAULT_STORAGE_KEY, sessionInfo = Some \<lparr>id' = 7, tab = 1\<rparr>,
       sessionIdGenerator = Some (\<lambda>_. 7), sessionStartedCallback = Some (\<lambda>_ _. ()),
       newTabOpenedCallback = Some (\<lambda>_. ()), newSessionCreated = True\<rparr>,
      \<lparr>sessionStorage = [DEFAULT_STORAGE_KEY \<mapsto> \<lparr>id' = 7, tab = 1\<rparr>],
       cookies = [DEFAULT_STORAGE_KEY \<mapsto> \<lparr>id' = 7, tab = 1\<rparr>],
       onbeforeunload = True,
       trace = [SessionStorageGet DEFAULT_STORAGE_KEY, SessionCookieGet DEFAULT_STORAGE_KEY,
                SessionIdGeneratorCall, NewTabOpenedCallbackCall 1,
                SessionCookieSet DEFAULT_STORAGE_KEY \<lparr>id' = 7, tab = 1\<rparr>,
                SessionStorageSet DEFAULT_STORAGE_KEY \<lparr>id' = 7, tab = 1\<rparr>,
                SessionStartedCallbackCall 7 1, OnBeforeUnloadSet]\<rparr>)"
  by (simp add: tracker_defs example_options_def empty_world_def Let_def)

lemma second_tab_run:
  "initialize example_options new_tracker second_tab_world =
     (Inr (),
      \<lparr>storageKeyName = DEFAULT_STORAGE_KEY, sessionInfo = Some \<lparr>id' = 7, tab = 2\<rparr>,
       sessionIdGenerator = Some (\<lambda>_. 7), sessionStartedCallback = Some (\<lambda>_ _. ()),
       newTabOpenedCallback = Some (\<lambda>_. ()), newSessionCreated = False\<rparr>,
      \<lparr>sessionStorage = [DEFAULT_STORAGE_KEY \<mapsto> \<lparr>id' = 7, tab = 2\<rparr>],
       cookies = [DEFAULT_STORAGE_KEY \<mapsto> \<lparr>id' = 7, tab = 2\<rparr>],
       onbeforeunload = True,
       trace = [SessionStorageGet DEFAULT_STORAGE_KEY, SessionCookieGet DEFAULT_STORAGE_KEY,
                NewTabOpenedCallbackCall 2,
                SessionCookieSet DEFAULT_STORAGE_KEY \<lparr>id' = 7, tab = 2\<rparr>,
                SessionStorageSet DEFAULT_STORAGE_KEY \<lparr>id' = 7, tab = 2\<rparr>,
                OnBeforeUnloadSet]\<rparr>)"
  by (simp add: tracker_defs example_options_def second_tab_world_def Let_def)

lemma reload_run:
  "initialize example_options new_tracker reload_world =
     (Inr (),
      \<lparr>storageKeyName = DEFAULT_STORAGE_KEY, sessionInfo = Some \<lparr>id' = 7, tab = 2\<rparr>,
       sessionIdGenerator = Some (\<lambda>_. 7), sessionStartedCallback = Some (\<lambda>_ _. ()),
       newTabOpenedCallback = Some (\<lambda>_. ()), newSessionCreated = False\<rparr>,
      \<lparr>sessionStorage = [DEFAULT_STORAGE_KEY \<mapsto> \<lparr>id' = 7, tab = 2\<rparr>],
       cookies = [DEFAULT_STORAGE_KEY \<mapsto> \<lparr>id' = 7, tab = 2\<rparr>],
       onbeforeunload = True,
       trace = [SessionStorageGet DEFAULT_STORAGE_KEY, OnBeforeUnloadSet]\<rparr>)"
  by (simp add: tracker_defs example_options_def reload_world_def Let_def)

lemma second_tab_eq:
  "second_tab =
      \<lparr>storageKeyName = DEFAULT_STORAGE_KEY, sessionInfo = Some \<lparr>id' = 7, tab = 2\<rparr>,
       sessionIdGenerator = Some (\<lambda>_. 7), sessionStartedCallback = Some (\<lambda>_ _. ()),
       newTabOpenedCallback = Some (\<lambda>_. ()), newSessionCreated = False\<rparr>"
  by (simp add: second_tab_def second_tab_run)

lemma second_tab_resolved_eq:
  "second_tab_resolved =
      \<lparr>sessionStorage = [DEFAULT_STORAGE_KEY \<mapsto> \<lparr>id' = 7, tab = 2\<rparr>],
       cookies = [DEFAULT_STORAGE_KEY \<mapsto> \<lparr>id' = 7, tab = 2\<rparr>],
       onbeforeunload = True,
       trace = [SessionStorageGet DEFAULT_STORAGE_KEY, SessionCookieGet DEFAULT_STORAGE_KEY,
                NewTabOpenedCallbackCall 2,
                SessionCookieSet DEFAULT_STORAGE_KEY \<lparr>id' = 7, tab = 2\<rparr>,
                SessionStorageSet DEFAULT_STORAGE_KEY \<lparr>id' = 7, tab = 2\<rparr>,
                OnBeforeUnloadSet]\<rparr>"
  by (simp add: second_tab_resolved_def second_tab_run)

subsection \<open>When initialize returns, and which trackers are reachable\<close>

lemma generateSessionInfo_returns:
  assumes "sessionIdGenerator t = Some g"
  shows "\<exists>si t3 w3. generateSessionInfo t w = (Inr si, t3, w3)"
proof (cases "sessionStorage w (storageKeyName t)")
  case (Some si)
  from generateSessionInfo_reload [OF Some] show ?thesis by blast
next
  case None
  show ?thesis
  proof (cases "cookies w (storageKeyName t)")
    case (Some si)
    from generateSessionInfo_join [OF None Some] show ?thesis by blast
  next
    case no_cookie: None
    from generateSessionInfo_mint [OF None no_cookie assms] show ?thesis by blast
  qed
qed

text \<open>
  On an unresolved tracker \<^verbatim>\<open>initialize\<close> returns normally exactly when the options
  hold a generator and the key override, if any, is empty or has a code unit that is not
  white space.
\<close>

lemma initialize_returns_iff:
  assumes "sessionInfo t = None"
  shows "fst (initialize opts t w) = Inr () \<longleftrightarrow>
     opt_sessionIdGenerator opts \<noteq> None \<and>
     (case opt_storageKey opts of None \<Rightarrow> True
      | Some k \<Rightarrow> k = [] \<or> \<not> list_all js_whitespace k)"
proof (cases "opt_sessionIdGenerator opts")
  case None
  with assms show ?thesis by (simp add: initialize_def validateSessionIdGenerator_def)
next
  case (Some g)
  define t1 where "t1 = t\<lparr>sessionIdGenerator := opt_sessionIdGenerator opts,
          sessionStartedCallback := opt_sessionStartedCallback opts,
          newTabOpenedCallback := opt_newTabOpenedCallback opts\<rparr>"
  note init = initialize_unresolved [OF assms Some t1_def, of w]
  obtain rk t2 where k: "set_storageKey (opt_storageKey opts) t1 = (rk, t2)"
    by (cases "set_storageKey (opt_storageKey opts) t1")
  from set_storageKey_frame [OF k] Some have "sessionIdGenerator t2 = Some g"
    by (simp add: t1_def)
  from generateSessionInfo_returns [OF this, of w] obtain si t3 w3 where
    g: "generateSessionInfo t2 w = (Inr si, t3, w3)" by blast
  have "rk = Inr () \<longleftrightarrow> (case opt_storageKey opts of None \<Rightarrow> True
      | Some k \<Rightarrow> k = [] \<or> \<not> list_all js_whitespace k)"
    using k by (auto simp: set_storageKey_def validateKey_def REGEX_EMPTY_STRING_def
        split: option.splits if_splits)
  moreover have "fst (initialize opts t w) = Inr () \<longleftrightarrow> rk = Inr ()"
    using init k g by (cases rk) simp_all
  ultimately show ?thesis using Some by simp
qed

text \<open>
  A tracker that has only been through \<^verbatim>\<open>initialize\<close> since its construction is
  unresolved only with \<^verbatim>\<open>newSessionCreated\<close> still false.
\<close>

lemma initialize_keeps_unresolved_fresh:
  assumes "sessionInfo t = None \<longrightarrow> \<not> newSessionCreated t"
    and "initialize opts t w = (r, t', w')"
  shows "sessionInfo t' = None \<longrightarrow> \<not> newSessionCreated t'"
proof (cases "sessionInfo t")
  case (Some si)
  from initialize_resolved [OF Some] assms(2) Some show ?thesis by simp
next
  case None
  show ?thesis
  proof (cases "opt_sessionIdGenerator opts")
    case no_gen: None
    with None assms show ?thesis
      by (auto simp: initialize_def validateSessionIdGenerator_def)
  next
    case (Some g)
    define t1 where "t1 = t\<lparr>sessionIdGenerator := opt_sessionIdGenerator opts,
          sessionStartedCallback := opt_sessionStartedCallback opts,
          newTabOpenedCallback := opt_newTabOpenedCallback opts\<rparr>"
    note init = initialize_unresolved [OF None Some t1_def, of w]
    obtain rk t2 where k: "set_storageKey (opt_storageKey opts) t1 = (rk, t2)"
      by (cases "set_storageKey (opt_storageKey opts) t1")
    from set_storageKey_frame [OF k] Some None
    have fr: "sessionIdGenerator t2 = Some g" "newSessionCreated t2 = newSessionCreated t"
      by (simp_all add: t1_def)
    from generateSessionInfo_returns [OF fr(1), of w] obtain si t3 w3 where
      g: "generateSessionInfo t2 w = (Inr si, t3, w3)" by blast
    from init k g assms fr(2) None show ?thesis by (cases rk) auto
  qed
qed

lemma new_tracker_fresh:
  "sessionInfo new_tracker = None \<and> \<not> newSessionCreated new_tracker"
  by (simp add: new_tracker_def)

section \<open>The claims\<close>

text \<open>
  In the theorems about \<^verbatim>\<open>initialize\<close>, "the storage key" is the key in force for
  the call: the value of the getter \<open>storageKey\<close> on the tracker that the call leaves,
  which is the override when a usable one was given and the tracker's previous key
  otherwise. The calls made during one run are read off \<open>new_events\<close>.
\<close>

text \<open>
  C1. The claim has the unload hook read the cross-tab record, take one off its count
  and write the result to both stores, so that for a tab resolved as \<open>{id: S, tab: 2}\<close>,
  with the cross-tab store since moved on to \<open>{id: S, tab: 3}\<close>, the cross-tab store
  holds \<open>{id: S, tab: 2}\<close> after the unload. The code at that input: the second tab of
  session 7 is resolved as \<open>{id: 7, tab: 2}\<close> and its per-tab store holds that record, a
  third tab has put \<open>{id: 7, tab: 3}\<close> into the cookie, and the unload of the second tab
  returns normally and leaves \<open>{id: 7, tab: 1}\<close> in the cookie and in the per-tab
  store. The handler takes its record from the per-tab store (line 107) and overwrites
  the shared one with it, where \<^verbatim>\<open>generateNewTabId\<close> (line 118) reads the cookie
  before it changes the count: the third tab's registration is lost.
\<close>

theorem unload_overwrites_cross_tab_count:
  "sessionInfo second_tab = Some \<lparr>id' = 7, tab = 2\<rparr> \<and>
   onbeforeunload third_tab_joined \<and>
   sessionStorage third_tab_joined (storageKey second_tab) = Some \<lparr>id' = 7, tab = 2\<rparr> \<and>
   cookies third_tab_joined (storageKey second_tab) = Some \<lparr>id' = 7, tab = 3\<rparr> \<and>
   fst (unload second_tab third_tab_joined) = Inr () \<and>
   cookies (snd (unload second_tab third_tab_joined)) (storageKey second_tab) =
     Some \<lparr>id' = 7, tab = 1\<rparr> \<and>
   sessionStorage (snd (unload second_tab third_tab_joined)) (storageKey second_tab) =
     Some \<lparr>id' = 7, tab = 1\<rparr> \<and>
   cookies (snd (unload second_tab third_tab_joined)) (storageKey second_tab) \<noteq>
     Some \<lparr>id' = 7, tab = 2\<rparr>"
  by (simp add: third_tab_joined_def second_tab_resolved_eq second_tab_eq storageKey_def
      unload_def onbeforeunload_handler_def sessionStorageGet_def sessionCookieSet_def
      sessionStorageSet_def log_def Let_def)

text \<open>
  C2, as the code has it. For a \<^verbatim>\<open>storageKey\<close> override that is empty or made of white
  space only, the tracker's storage key is never changed by \<^verbatim>\<open>initialize\<close>; and when
  the override is not empty, the tracker is unresolved and a generator is given,
  \<^verbatim>\<open>initialize\<close> throws the error \<^verbatim>\<open>'Invalid storage key'\<close> without touching the
  stores.
\<close>

theorem whitespace_storage_key_rejected:
  assumes "opt_storageKey opts = Some k" and "list_all js_whitespace k"
  shows "storageKey (fst (snd (initialize opts t w))) = storageKey t \<and>
     (k \<noteq> [] \<and> sessionInfo t = None \<and> opt_sessionIdGenerator opts \<noteq> None \<longrightarrow>
        fst (initialize opts t w) = Inl InvalidStorageKey \<and>
        snd (snd (initialize opts t w)) = w)"
proof (cases "sessionInfo t")
  case (Some si)
  then show ?thesis by (simp add: initialize_resolved)
next
  case None
  show ?thesis
  proof (cases "opt_sessionIdGenerator opts")
    case no_gen: None
    with None show ?thesis
      by (simp add: initialize_def validateSessionIdGenerator_def)
  next
    case (Some g)
    define t1 where "t1 = t\<lparr>sessionIdGenerator := opt_sessionIdGenerator opts,
          sessionStartedCallback := opt_sessionStartedCallback opts,
          newTabOpenedCallback := opt_newTabOpenedCallback opts\<rparr>"
    note init = initialize_unresolved [OF None Some t1_def, of w]
    have k1: "storageKeyName t1 = storageKeyName t" by (simp add: t1_def)
    show ?thesis
    proof (cases "k = []")
      case True
      then have s: "set_storageKey (opt_storageKey opts) t1 = (Inr (), t1)"
        using assms(1) by (simp add: set_storageKey_def)
      obtain rr t3 w3 where g: "generateSessionInfo t1 w = (rr, t3, w3)"
        by (cases "generateSessionInfo t1 w")
      from generateSessionInfo_key [OF g] k1 init s g True show ?thesis
        by (cases rr) (simp_all add: storageKey_def)
    next
      case False
      then have "set_storageKey (opt_storageKey opts) t1 = (Inl InvalidStorageKey, t1)"
        using assms by (simp add: set_storageKey_def validateKey_def REGEX_EMPTY_STRING_def)
      with init k1 show ?thesis by (simp add: storageKey_def)
    qed
  qed
qed

theorem whitespace_storage_key_rejected_witness:
  "opt_storageKey blank_key_options = Some [0x0020, 0x0009] \<and>
   list_all js_whitespace [0x0020, 0x0009] \<and>
   sessionInfo (new_tracker :: nat tracker) = None \<and>
   opt_sessionIdGenerator blank_key_options \<noteq> None \<and>
   fst (initialize blank_key_options new_tracker empty_world) = Inl InvalidStorageKey \<and>
   snd (snd (initialize blank_key_options new_tracker empty_world)) = empty_world \<and>
   storageKey (fst (snd (initialize blank_key_options new_tracker empty_world))) =
     DEFAULT_STORAGE_KEY"
proof -
  have h1: "opt_storageKey blank_key_options = Some [0x0020, 0x0009]"
    by (simp add: blank_key_options_def)
  have h2: "list_all js_whitespace [0x0020, 0x0009]"
    by (simp add: js_whitespace_def)
  have h3: "sessionInfo (new_tracker :: nat tracker) = None"
    "opt_sessionIdGenerator blank_key_options \<noteq> None"
    "storageKey (new_tracker :: nat tracker) = DEFAULT_STORAGE_KEY"
    by (simp_all add: new_tracker_def blank_key_options_def example_options_def storageKey_def)
  from whitespace_storage_key_rejected [OF h1 h2, of new_tracker empty_world] h1 h2 h3
  show ?thesis by simp
qed

text \<open>
  The claim as stated fails for the empty string: the override is falsy, the validation is
  skipped, and \<^verbatim>\<open>initialize\<close> returns normally.
\<close>

theorem empty_storage_key_counterexample:
  "opt_storageKey empty_key_options = Some [] \<and>
   sessionInfo (new_tracker :: nat tracker) = None \<and>
   fst (initialize empty_key_options new_tracker empty_world) = Inr () \<and>
   fst (initialize empty_key_options new_tracker empty_world) \<noteq> Inl InvalidStorageKey"
  by (simp add: tracker_defs empty_key_options_def example_options_def empty_world_def Let_def)




text \<open>
  C4. First tab ever: \<^verbatim>\<open>initialize\<close> returns normally on an unresolved tracker, and
  both stores were empty at the storage key. Then the generator was called exactly once,
  the tab number is 1 and the session id is the minted one, \<^verbatim>\<open>sessionStartedCallback\<close>
  (when one is configured) was called exactly once, with the minted id and 1, and
  \<^verbatim>\<open>newTabOpenedCallback\<close> (when one is configured) exactly once, with 1.
\<close>

theorem first_tab_mints_session:
  assumes "sessionInfo t = None"
    and "initialize opts t w = (Inr (), t', w')"
    and "sessionStorage w (storageKey t') = None"
    and "cookies w (storageKey t') = None"
  shows "\<exists>g. opt_sessionIdGenerator opts = Some g \<and>
     generator_calls (new_events w w') = 1 \<and>
     tabId t' = Inr 1 \<and> sessionId t' = Inr (g ()) \<and>
     sessionStarted_calls (new_events w w') =
       (case opt_sessionStartedCallback opts of None \<Rightarrow> [] | Some _ \<Rightarrow> [(g (), 1)]) \<and>
     newTabOpened_calls (new_events w w') =
       (case opt_newTabOpenedCallback opts of None \<Rightarrow> [] | Some _ \<Rightarrow> [1])"
proof -
  from assms(1,2) obtain t2 si t3 w3 where r:
    "sessionIdGenerator t2 = opt_sessionIdGenerator opts"
    "newTabOpenedCallback t2 = opt_newTabOpenedCallback opts"
    "sessionStartedCallback t2 = opt_sessionStartedCallback opts"
    "opt_sessionIdGenerator opts \<noteq> None"
    "storageKeyName t2 = storageKey t'"
    "generateSessionInfo t2 w = (Inr si, t3, w3)"
    "t' = t3\<lparr>sessionInfo := Some si\<rparr>"
    "w' = listenOnTabCloseEvent (snd (trigger_sessionStarted t' w3))"
    by (rule initialize_normal_return)
  from r(4) obtain g where g: "opt_sessionIdGenerator opts = Some g" by auto
  have "sessionStorage w (storageKeyName t2) = None" "cookies w (storageKeyName t2) = None"
    "sessionIdGenerator t2 = Some g"
    using assms(3,4) r(1,5) g by simp_all
  from generateSessionInfo_mint [OF this] r(6)
  have si: "si = \<lparr>id' = g (), tab = 1\<rparr>" and t3: "t3 = t2\<lparr>newSessionCreated := True\<rparr>"
    and w3: "trace w3 = trace w @
          [SessionStorageGet (storageKeyName t2), SessionCookieGet (storageKeyName t2),
           SessionIdGeneratorCall] @
          (case newTabOpenedCallback t2 of None \<Rightarrow> []
           | Some _ \<Rightarrow> [NewTabOpenedCallbackCall 1]) @
          [SessionCookieSet (storageKeyName t2) \<lparr>id' = g (), tab = 1\<rparr>,
           SessionStorageSet (storageKeyName t2) \<lparr>id' = g (), tab = 1\<rparr>]"
    by simp_all
  have t': "sessionInfo t' = Some si" "newSessionCreated t'"
    "sessionStartedCallback t' = opt_sessionStartedCallback opts"
    using r(3,7) t3 by simp_all
  have "trace w' = trace w3 @
      (case opt_sessionStartedCallback opts of None \<Rightarrow> []
       | Some _ \<Rightarrow> [SessionStartedCallbackCall (g ()) 1]) @ [OnBeforeUnloadSet]"
    using r(8) t' si
    by (simp add: trigger_sessionStarted_resolved listenOnTabCloseEvent_def log_def
        split: option.splits)
  with w3 r(2) have "new_events w w' =
      [SessionStorageGet (storageKeyName t2), SessionCookieGet (storageKeyName t2),
       SessionIdGeneratorCall] @
      (case opt_newTabOpenedCallback opts of None \<Rightarrow> []
       | Some _ \<Rightarrow> [NewTabOpenedCallbackCall 1]) @
      [SessionCookieSet (storageKeyName t2) \<lparr>id' = g (), tab = 1\<rparr>,
       SessionStorageSet (storageKeyName t2) \<lparr>id' = g (), tab = 1\<rparr>] @
      (case opt_sessionStartedCallback opts of None \<Rightarrow> []
       | Some _ \<Rightarrow> [SessionStartedCallbackCall (g ()) 1]) @ [OnBeforeUnloadSet]"
    by (simp add: new_events_def)
  then show ?thesis using g t'(1) si
    by (simp add: tabId_def sessionId_def split: option.splits)
qed

theorem first_tab_mints_session_witness:
  "sessionInfo (new_tracker :: nat tracker) = None \<and>
   fst (initialize example_options new_tracker empty_world) = Inr () \<and>
   sessionStorage empty_world DEFAULT_STORAGE_KEY = None \<and>
   cookies empty_world DEFAULT_STORAGE_KEY = None \<and>
   generator_calls (new_events empty_world (snd (snd (initialize example_options new_tracker empty_world)))) = 1 \<and>
   tabId (fst (snd (initialize example_options new_tracker empty_world))) = Inr 1 \<and>
   sessionId (fst (snd (initialize example_options new_tracker empty_world))) = Inr 7 \<and>
   sessionStarted_calls (new_events empty_world (snd (snd (initialize example_options new_tracker empty_world)))) = [(7, 1)] \<and>
   newTabOpened_calls (new_events empty_world (snd (snd (initialize example_options new_tracker empty_world)))) = [1]"
proof -
  have h1: "sessionInfo (new_tracker :: nat tracker) = None" by (simp add: new_tracker_def)
  have h3: "sessionStorage empty_world (storageKey (fst (snd (initialize example_options new_tracker empty_world)))) = None"
    and h4: "cookies empty_world (storageKey (fst (snd (initialize example_options new_tracker empty_world)))) = None"
    by (simp_all add: empty_world_def)
  have h2: "initialize example_options new_tracker empty_world =
      (Inr (), fst (snd (initialize example_options new_tracker empty_world)),
       snd (snd (initialize example_options new_tracker empty_world)))"
    by (simp add: first_tab_run)
  from first_tab_mints_session [OF h1 h2 h3 h4] h1 show ?thesis
    unfolding first_tab_run
    by (simp add: new_events_def example_options_def empty_world_def)
qed

text \<open>
  C5. Second tab of a running session: \<^verbatim>\<open>initialize\<close> returns normally on a tracker
  as the constructor left it (unresolved, no session created), the per-tab store was empty
  at the storage key and the cross-tab store held \<open>{id: S, tab: 1}\<close> there. Then the tab
  number is 2 and the session id is \<open>S\<close>, \<^verbatim>\<open>sessionStartedCallback\<close> was not called,
  \<^verbatim>\<open>newTabOpenedCallback\<close> (when one is configured) was called exactly once, with 2,
  the generator was not called, and both stores hold \<open>{id: S, tab: 2}\<close> at the key.
\<close>

theorem second_tab_joins_session:
  assumes "sessionInfo t = None" and "\<not> newSessionCreated t"
    and "initialize opts t w = (Inr (), t', w')"
    and "sessionStorage w (storageKey t') = None"
    and "cookies w (storageKey t') = Some \<lparr>id' = S, tab = 1\<rparr>"
  shows "tabId t' = Inr 2 \<and> sessionId t' = Inr S \<and>
     sessionStarted_calls (new_events w w') = [] \<and>
     newTabOpened_calls (new_events w w') =
       (case opt_newTabOpenedCallback opts of None \<Rightarrow> [] | Some _ \<Rightarrow> [2]) \<and>
     generator_calls (new_events w w') = 0 \<and>
     sessionStorage w' (storageKey t') = Some \<lparr>id' = S, tab = 2\<rparr> \<and>
     cookies w' (storageKey t') = Some \<lparr>id' = S, tab = 2\<rparr>"
proof -
  from assms(1,3) obtain t2 si t3 w3 where r:
    "newSessionCreated t2 = newSessionCreated t"
    "newTabOpenedCallback t2 = opt_newTabOpenedCallback opts"
    "storageKeyName t2 = storageKey t'"
    "generateSessionInfo t2 w = (Inr si, t3, w3)"
    "t' = t3\<lparr>sessionInfo := Some si\<rparr>"
    "w' = listenOnTabCloseEvent (snd (trigger_sessionStarted t' w3))"
    by (rule initialize_normal_return)
  have "sessionStorage w (storageKeyName t2) = None"
    "cookies w (storageKeyName t2) = Some \<lparr>id' = S, tab = 1\<rparr>"
    using assms(4,5) r(3) by simp_all
  from generateSessionInfo_join [OF this] r(4)
  have si: "si = \<lparr>id' = S, tab = 2\<rparr>" and t3: "t3 = t2"
    and w3: "trace w3 = trace w @
          [SessionStorageGet (storageKeyName t2), SessionCookieGet (storageKeyName t2)] @
          (case newTabOpenedCallback t2 of None \<Rightarrow> []
           | Some _ \<Rightarrow> [NewTabOpenedCallbackCall 2]) @
          [SessionCookieSet (storageKeyName t2) \<lparr>id' = S, tab = 2\<rparr>,
           SessionStorageSet (storageKeyName t2) \<lparr>id' = S, tab = 2\<rparr>]"
    and st: "sessionStorage w3 (storageKeyName t2) = Some \<lparr>id' = S, tab = 2\<rparr>"
      "cookies w3 (storageKeyName t2) = Some \<lparr>id' = S, tab = 2\<rparr>"
    by (auto split: option.splits)
  have t': "sessionInfo t' = Some si" "\<not> newSessionCreated t'"
    using r(1,5) t3 assms(2) by simp_all
  have w': "trace w' = trace w3 @ [OnBeforeUnloadSet]"
    "sessionStorage w' = sessionStorage w3" "cookies w' = cookies w3"
    using r(6) t'
    by (simp_all add: trigger_sessionStarted_resolved listenOnTabCloseEvent_def log_def)
  with w3 r(2) have "new_events w w' =
      [SessionStorageGet (storageKeyName t2), SessionCookieGet (storageKeyName t2)] @
      (case opt_newTabOpenedCallback opts of None \<Rightarrow> []
       | Some _ \<Rightarrow> [NewTabOpenedCallbackCall 2]) @
      [SessionCookieSet (storageKeyName t2) \<lparr>id' = S, tab = 2\<rparr>,
       SessionStorageSet (storageKeyName t2) \<lparr>id' = S, tab = 2\<rparr>, OnBeforeUnloadSet]"
    by (simp add: new_events_def)
  then show ?thesis using t'(1) si st w'(2,3) r(3)
    by (simp add: tabId_def sessionId_def split: option.splits)
qed

theorem second_tab_joins_session_witness:
  "sessionInfo (new_tracker :: nat tracker) = None \<and>
   \<not> newSessionCreated (new_tracker :: nat tracker) \<and>
   fst (initialize example_options new_tracker second_tab_world) = Inr () \<and>
   sessionStorage second_tab_world DEFAULT_STORAGE_KEY = None \<and>
   cookies second_tab_world DEFAULT_STORAGE_KEY = Some \<lparr>id' = 7, tab = 1\<rparr> \<and>
   tabId second_tab = Inr 2 \<and> sessionId second_tab = Inr 7 \<and>
   sessionStarted_calls (new_events second_tab_world second_tab_resolved) = [] \<and>
   newTabOpened_calls (new_events second_tab_world second_tab_resolved) = [2] \<and>
   sessionStorage second_tab_resolved DEFAULT_STORAGE_KEY = Some \<lparr>id' = 7, tab = 2\<rparr> \<and>
   cookies second_tab_resolved DEFAULT_STORAGE_KEY = Some \<lparr>id' = 7, tab = 2\<rparr>"
proof -
  have h1: "sessionInfo (new_tracker :: nat tracker) = None"
    and h2: "\<not> newSessionCreated (new_tracker :: nat tracker)"
    by (simp_all add: new_tracker_def)
  have h3: "initialize example_options new_tracker second_tab_world =
      (Inr (), second_tab, second_tab_resolved)"
    by (simp add: second_tab_def second_tab_resolved_def second_tab_run)
  have k: "storageKey second_tab = DEFAULT_STORAGE_KEY"
    by (simp add: second_tab_def second_tab_run storageKey_def)
  have h4: "sessionStorage second_tab_world (storageKey second_tab) = None"
    and h5: "cookies second_tab_world (storageKey second_tab) = Some \<lparr>id' = 7, tab = 1\<rparr>"
    unfolding k by (simp_all add: second_tab_world_def)
  from second_tab_joins_session [OF h1 h2 h3 h4 h5] h1 h2 h3 h4 h5 show ?thesis
    unfolding k by (simp add: example_options_def)
qed

text \<open>
  C6. Reload of a tab: \<^verbatim>\<open>initialize\<close> returns normally on a tracker as the
  constructor left it, and the per-tab store held \<open>{id: S, tab: n}\<close> at the storage key.
  Then exactly that record is the resolved identity (tab number \<open>n\<close>, session id \<open>S\<close>),
  and neither callback nor the generator was called.
\<close>

theorem reload_adopts_per_tab_record:
  assumes "sessionInfo t = None" and "\<not> newSessionCreated t"
    and "initialize opts t w = (Inr (), t', w')"
    and "sessionStorage w (storageKey t') = Some \<lparr>id' = S, tab = n\<rparr>"
  shows "sessionInfo t' = Some \<lparr>id' = S, tab = n\<rparr> \<and> tabId t' = Inr n \<and> sessionId t' = Inr S \<and>
     sessionStarted_calls (new_events w w') = [] \<and>
     newTabOpened_calls (new_events w w') = [] \<and>
     generator_calls (new_events w w') = 0"
proof -
  from assms(1,3) obtain t2 si t3 w3 where r:
    "newSessionCreated t2 = newSessionCreated t"
    "storageKeyName t2 = storageKey t'"
    "generateSessionInfo t2 w = (Inr si, t3, w3)"
    "t' = t3\<lparr>sessionInfo := Some si\<rparr>"
    "w' = listenOnTabCloseEvent (snd (trigger_sessionStarted t' w3))"
    by (rule initialize_normal_return)
  have "sessionStorage w (storageKeyName t2) = Some \<lparr>id' = S, tab = n\<rparr>"
    using assms(4) r(2) by simp
  from generateSessionInfo_reload [OF this] r(3)
  have si: "si = \<lparr>id' = S, tab = n\<rparr>" and t3: "t3 = t2"
    and w3: "trace w3 = trace w @ [SessionStorageGet (storageKeyName t2)]"
    by (simp_all add: log_def)
  have t': "sessionInfo t' = Some si" "\<not> newSessionCreated t'"
    using r(1,4) t3 assms(2) by simp_all
  have "trace w' = trace w3 @ [OnBeforeUnloadSet]"
    using r(5) t'
    by (simp add: trigger_sessionStarted_resolved listenOnTabCloseEvent_def log_def)
  with w3 have "new_events w w' = [SessionStorageGet (storageKeyName t2), OnBeforeUnloadSet]"
    by (simp add: new_events_def)
  then show ?thesis using t'(1) si
    by (simp add: tabId_def sessionId_def)
qed

theorem reload_adopts_per_tab_record_witness:
  "sessionInfo (new_tracker :: nat tracker) = None \<and>
   \<not> newSessionCreated (new_tracker :: nat tracker) \<and>
   fst (initialize example_options new_tracker reload_world) = Inr () \<and>
   sessionStorage reload_world DEFAULT_STORAGE_KEY = Some \<lparr>id' = 7, tab = 2\<rparr> \<and>
   tabId (fst (snd (initialize example_options new_tracker reload_world))) = Inr 2 \<and>
   sessionId (fst (snd (initialize example_options new_tracker reload_world))) = Inr 7 \<and>
   sessionStarted_calls (new_events reload_world
     (snd (snd (initialize example_options new_tracker reload_world)))) = [] \<and>
   newTabOpened_calls (new_events reload_world
     (snd (snd (initialize example_options new_tracker reload_world)))) = [] \<and>
   generator_calls (new_events reload_world
     (snd (snd (initialize example_options new_tracker reload_world)))) = 0"
proof -
  have h1: "sessionInfo (new_tracker :: nat tracker) = None"
    and h2: "\<not> newSessionCreated (new_tracker :: nat tracker)"
    by (simp_all add: new_tracker_def)
  have h3: "initialize example_options new_tracker reload_world =
      (Inr (), fst (snd (initialize example_options new_tracker reload_world)),
       snd (snd (initialize example_options new_tracker reload_world)))"
    by (simp add: reload_run)
  have h4: "sessionStorage reload_world
      (storageKey (fst (snd (initialize example_options new_tracker reload_world)))) =
      Some \<lparr>id' = 7, tab = 2\<rparr>"
    unfolding reload_run by (simp add: storageKey_def reload_world_def)
  from reload_adopts_per_tab_record [OF h1 h2 h3 h4] h1 h2 show ?thesis
    unfolding reload_run by (simp add: reload_world_def)
qed

text \<open>
  C7. \<^verbatim>\<open>initialize\<close> is idempotent: on a tracker whose record is resolved, a further
  call, with any options at all, returns normally and leaves the tracker (its resolved
  record and its storage key with it) and both stores as they were; all it does is set the
  unload handler again: no store is read or written, no callback and no generator is
  called.
\<close>

theorem initialize_idempotent:
  assumes "sessionInfo t \<noteq> None" and "initialize opts t w = (r, t', w')"
  shows "r = Inr () \<and> t' = t \<and> storageKey t' = storageKey t \<and>
     sessionStorage w' = sessionStorage w \<and> cookies w' = cookies w \<and>
     onbeforeunload w' \<and> new_events w w' = [OnBeforeUnloadSet] \<and>
     store_accesses (new_events w w') = [] \<and> generator_calls (new_events w w') = 0 \<and>
     sessionStarted_calls (new_events w w') = [] \<and> newTabOpened_calls (new_events w w') = []"
proof -
  from assms(1) obtain si where "sessionInfo t = Some si" by auto
  from initialize_resolved [OF this] assms(2)
  have "r = Inr ()" "t' = t" "w' = listenOnTabCloseEvent w" by simp_all
  then show ?thesis
    by (simp add: listenOnTabCloseEvent_def log_def new_events_def store_accesses_def)
qed

theorem initialize_idempotent_witness:
  "sessionInfo second_tab \<noteq> None \<and>
   fst (initialize other_key_options second_tab second_tab_resolved) = Inr () \<and>
   fst (snd (initialize other_key_options second_tab second_tab_resolved)) = second_tab \<and>
   storageKey (fst (snd (initialize other_key_options second_tab second_tab_resolved))) =
     DEFAULT_STORAGE_KEY \<and>
   new_events second_tab_resolved
     (snd (snd (initialize other_key_options second_tab second_tab_resolved))) =
     [OnBeforeUnloadSet]"
proof -
  have h1: "sessionInfo second_tab \<noteq> None"
    by (simp add: second_tab_def second_tab_run)
  have h2: "initialize other_key_options second_tab second_tab_resolved =
     (fst (initialize other_key_options second_tab second_tab_resolved),
      fst (snd (initialize other_key_options second_tab second_tab_resolved)),
      snd (snd (initialize other_key_options second_tab second_tab_resolved)))"
    by simp
  have k: "storageKey second_tab = DEFAULT_STORAGE_KEY"
    by (simp add: second_tab_def second_tab_run storageKey_def)
  from initialize_idempotent [OF h1 h2] h1 k show ?thesis
    by simp
qed

text \<open>
  C8. Without a \<^verbatim>\<open>sessionIdGenerator\<close> in the options, \<^verbatim>\<open>initialize\<close> on an
  unresolved tracker throws the error \<^verbatim>\<open>'Session ID generator not set'\<close> with the
  tracker and the world untouched: nothing was read from or written to either store, and
  the tracker is still unresolved.
\<close>

theorem missing_generator_raises_before_any_store_access:
  assumes "sessionInfo t = None" and "opt_sessionIdGenerator opts = None"
  shows "initialize opts t w = (Inl SessionIdGeneratorNotSet, t, w) \<and>
     store_accesses (new_events w (snd (snd (initialize opts t w)))) = []"
  using assms
  by (simp add: initialize_def validateSessionIdGenerator_def new_events_def store_accesses_def)

theorem missing_generator_witness:
  "sessionInfo (new_tracker :: nat tracker) = None \<and>
   opt_sessionIdGenerator (example_options\<lparr>opt_sessionIdGenerator := None\<rparr>) = None \<and>
   initialize (example_options\<lparr>opt_sessionIdGenerator := None\<rparr>) new_tracker empty_world =
     (Inl SessionIdGeneratorNotSet, new_tracker, empty_world)"
proof -
  have h1: "sessionInfo (new_tracker :: nat tracker) = None" by (simp add: new_tracker_def)
  have h2: "opt_sessionIdGenerator (example_options\<lparr>opt_sessionIdGenerator := None\<rparr>) = None"
    by simp
  from missing_generator_raises_before_any_store_access [OF h1 h2, of empty_world] h1 h2
  show ?thesis by simp
qed

text \<open>
  C9. Whatever the two stores hold, and whatever the tracker and the options are, one
  call of \<^verbatim>\<open>initialize\<close> calls the generator at most once. When the call resolves an
  unresolved tracker (it returns normally), the generator was called exactly once if and
  only if both the per-tab and the cross-tab store were empty at the storage key.
\<close>

theorem generator_called_iff_both_stores_empty:
  assumes "initialize opts t w = (r, t', w')"
  shows "generator_calls (new_events w w') \<le> 1 \<and>
     (sessionInfo t = None \<and> r = Inr () \<longrightarrow>
        (generator_calls (new_events w w') = 1) =
        (sessionStorage w (storageKey t') = None \<and> cookies w (storageKey t') = None))"
proof (cases "sessionInfo t")
  case (Some si)
  from initialize_resolved [OF Some] assms have "w' = listenOnTabCloseEvent w" by simp
  with Some show ?thesis
    by (simp add: listenOnTabCloseEvent_def log_def new_events_def)
next
  case None
  from initialize_unresolved_cases [OF None assms]
  show ?thesis
  proof (elim disjE exE conjE)
    assume "w' = w" and "r \<noteq> Inr ()"
    then show ?thesis by (simp add: new_events_def)
  next
    fix t2 rr t3 w3
    assume gen: "sessionIdGenerator t2 = opt_sessionIdGenerator opts"
      "opt_sessionIdGenerator opts \<noteq> None"
      and g: "generateSessionInfo t2 w = (rr, t3, w3)"
      and key: "storageKeyName t' = storageKeyName t2"
      and c: "case rr of Inl e \<Rightarrow> r = Inl e \<and> w' = w3
         | Inr si \<Rightarrow> r = Inr () \<and> t' = t3\<lparr>sessionInfo := Some si\<rparr> \<and>
             w' = listenOnTabCloseEvent
                   (snd (trigger_sessionStarted (t3\<lparr>sessionInfo := Some si\<rparr>) w3))"
    from generateSessionInfo_effect [OF g] gen obtain es where
      es: "trace w3 = trace w @ es"
      "generator_calls es =
        (if sessionStorage w (storageKeyName t2) = None \<and> cookies w (storageKeyName t2) = None
         then 1 else 0)"
      by auto
    show ?thesis
    proof (cases rr)
      case (Inl e)
      with c es show ?thesis by (simp add: new_events_def)
    next
      case (Inr si)
      with c have w': "w' = listenOnTabCloseEvent
          (snd (trigger_sessionStarted (t3\<lparr>sessionInfo := Some si\<rparr>) w3))"
        by simp
      have "sessionInfo (t3\<lparr>sessionInfo := Some si\<rparr>) = Some si" by simp
      from resolution_tail(1) [OF this w'] obtain es2 where
        "trace w' = trace w3 @ es2" "generator_calls es2 = 0"
        by auto
      with es have "generator_calls (new_events w w') =
        (if sessionStorage w (storageKeyName t2) = None \<and> cookies w (storageKeyName t2) = None
         then 1 else 0)"
        by (simp add: new_events_def generator_calls_append)
      with key show ?thesis by (simp add: storageKey_def)
    qed
  qed
qed

theorem generator_called_iff_both_stores_empty_witness:
  "sessionInfo (new_tracker :: nat tracker) = None \<and>
   fst (initialize example_options new_tracker empty_world) = Inr () \<and>
   generator_calls (new_events empty_world
     (snd (snd (initialize example_options new_tracker empty_world)))) = 1 \<and>
   sessionStorage empty_world DEFAULT_STORAGE_KEY = None \<and>
   cookies empty_world DEFAULT_STORAGE_KEY = None"
proof -
  have h: "initialize example_options new_tracker empty_world =
      (fst (initialize example_options new_tracker empty_world),
       fst (snd (initialize example_options new_tracker empty_world)),
       snd (snd (initialize example_options new_tracker empty_world)))"
    by simp
  have "sessionInfo (new_tracker :: nat tracker) = None" by (simp add: new_tracker_def)
  moreover have "fst (initialize example_options new_tracker empty_world) = Inr ()"
    by (simp add: first_tab_run)
  moreover have "sessionStorage empty_world DEFAULT_STORAGE_KEY = None"
    "cookies empty_world DEFAULT_STORAGE_KEY = None"
    by (simp_all add: empty_world_def)
  moreover have "storageKey (fst (snd (initialize example_options new_tracker empty_world))) =
      DEFAULT_STORAGE_KEY"
    by (simp add: first_tab_run storageKey_def)
  ultimately show ?thesis
    using generator_called_iff_both_stores_empty [OF h] by simp
qed

text \<open>
  C10. Frame of the reload path: when the per-tab store holds a record at the storage
  key, \<^verbatim>\<open>initialize\<close> writes to neither store, whatever the tracker, the options and
  the outcome are: both stores are afterwards what they were before, and no write was
  issued.
\<close>

theorem reload_writes_nothing:
  assumes "initialize opts t w = (r, t', w')"
    and "sessionStorage w (storageKey t') \<noteq> None"
  shows "sessionStorage w' = sessionStorage w \<and> cookies w' = cookies w \<and>
     store_writes (new_events w w') = []"
proof (cases "sessionInfo t")
  case (Some si)
  from initialize_resolved [OF Some] assms(1) have "w' = listenOnTabCloseEvent w" by simp
  then show ?thesis
    by (simp add: listenOnTabCloseEvent_def log_def new_events_def store_writes_def)
next
  case None
  from initialize_unresolved_cases [OF None assms(1)]
  show ?thesis
  proof (elim disjE exE conjE)
    assume "w' = w"
    then show ?thesis by (simp add: new_events_def store_writes_def)
  next
    fix t2 rr t3 w3
    assume g: "generateSessionInfo t2 w = (rr, t3, w3)"
      and key: "storageKeyName t' = storageKeyName t2"
      and c: "case rr of Inl e \<Rightarrow> r = Inl e \<and> w' = w3
         | Inr si \<Rightarrow> r = Inr () \<and> t' = t3\<lparr>sessionInfo := Some si\<rparr> \<and>
             w' = listenOnTabCloseEvent
                   (snd (trigger_sessionStarted (t3\<lparr>sessionInfo := Some si\<rparr>) w3))"
    from assms(2) key have "sessionStorage w (storageKeyName t2) \<noteq> None"
      by (simp add: storageKey_def)
    with generateSessionInfo_effect [OF g] obtain es where
      es: "trace w3 = trace w @ es" "store_writes es = []"
      "sessionStorage w3 = sessionStorage w" "cookies w3 = cookies w"
      by auto
    show ?thesis
    proof (cases rr)
      case (Inl e)
      with c es show ?thesis by (simp add: new_events_def)
    next
      case (Inr si)
      with c have w': "w' = listenOnTabCloseEvent
          (snd (trigger_sessionStarted (t3\<lparr>sessionInfo := Some si\<rparr>) w3))"
        by simp
      have si: "sessionInfo (t3\<lparr>sessionInfo := Some si\<rparr>) = Some si" by simp
      from resolution_tail(1) [OF si w'] obtain es2 where
        "trace w' = trace w3 @ es2" "store_writes es2 = []"
        by auto
      with es resolution_tail(2,3) [OF si w'] show ?thesis
        by (simp add: new_events_def store_writes_def)
    qed
  qed
qed

theorem reload_writes_nothing_witness:
  "sessionStorage reload_world DEFAULT_STORAGE_KEY \<noteq> None \<and>
   sessionStorage (snd (snd (initialize example_options new_tracker reload_world))) =
     sessionStorage reload_world \<and>
   cookies (snd (snd (initialize example_options new_tracker reload_world))) =
     cookies reload_world \<and>
   store_writes (new_events reload_world
     (snd (snd (initialize example_options new_tracker reload_world)))) = []"
proof -
  have h: "initialize example_options new_tracker reload_world =
      (fst (initialize example_options new_tracker reload_world),
       fst (snd (initialize example_options new_tracker reload_world)),
       snd (snd (initialize example_options new_tracker reload_world)))"
    by simp
  have k: "storageKey (fst (snd (initialize example_options new_tracker reload_world))) =
      DEFAULT_STORAGE_KEY"
    unfolding reload_run by (simp add: storageKey_def)
  have p: "sessionStorage reload_world DEFAULT_STORAGE_KEY \<noteq> None"
    by (simp add: reload_world_def)
  then have "sessionStorage reload_world
      (storageKey (fst (snd (initialize example_options new_tracker reload_world)))) \<noteq> None"
    unfolding k .
  from reload_writes_nothing [OF h this] p show ?thesis by simp
qed

end
